theory Spec2Isabelle
  imports Main "HOL-Library.Word" "HOL-Library.AList"
begin

section \<open>Credentialed transport (datasource/dvid/api.ts)\<close>

text \<open>
  \<^verbatim>\<open>export type DVIDToken = string;\<close>

  The fields of \<^verbatim>\<open>RequestInit\<close> that the code reads or writes. An absent property
  (\<^verbatim>\<open>undefined\<close>) is \<open>None\<close>; the property \<^verbatim>\<open>method\<close> is the field
  \<open>requestMethod\<close>. The \<^verbatim>\<open>headers\<close> property is a plain object: an
  association list in property order, so that \<^verbatim>\<open>{...h, Authorization: v}\<close> is
  \<open>AList.update\<close> (overwrite in place, or append).
\<close>

type_synonym DVIDToken = string

record RequestInit =
  requestMethod :: string
  body :: "string option"
  headers :: "(string \<times> string) list option"
  credentials :: "string option"

text \<open>
  \<^verbatim>\<open>interface HttpCall { method; url; payload?: string }\<close> together with the
  \<^verbatim>\<open>responseType\<close> every caller adds.
\<close>

record HttpCall =
  httpMethod :: string
  url :: string
  payload :: "string option"
  responseType :: string

text \<open>\<^verbatim>\<open>input.startsWith(p)\<close>\<close>

definition startsWith :: "string \<Rightarrow> string \<Rightarrow> bool" where
  "startsWith s p = (take (length p) s = p)"

text \<open>\<^verbatim>\<open>{ ...newInit.headers, Authorization: v }\<close>: spreading \<^verbatim>\<open>undefined\<close> gives \<^verbatim>\<open>{}\<close>.\<close>

definition spreadHeaders :: "(string \<times> string) list option \<Rightarrow> (string \<times> string) list" where
  "spreadHeaders h = (case h of None \<Rightarrow> [] | Some ps \<Rightarrow> ps)"

text \<open>
  \<^verbatim>\<open>
  function applyCredentials(input: string) {
    return (credentials: DVIDToken, init: RequestInit) => {
      let newInit: RequestInit = { ...init };
      if (input.startsWith('https')) {
        if (credentials.length > 0) {
          newInit.headers = { ...newInit.headers, Authorization: `Bearer ${credentials}` }
        } else {
          newInit.credentials = 'include';
        }
      }
      return newInit;
    }
  }
  \<close>
\<close>

definition applyCredentials :: "string \<Rightarrow> DVIDToken \<Rightarrow> RequestInit \<Rightarrow> RequestInit" where
  "applyCredentials input token init =
     (let newInit = init in
      if startsWith input ''https'' then
        (if length token > 0 then
           newInit\<lparr>headers :=
             Some (AList.update ''Authorization'' (''Bearer '' @ token) (spreadHeaders (headers newInit)))\<rparr>
         else
           newInit\<lparr>credentials := Some ''include''\<rparr>)
      else newInit)"

text \<open>
  The request options that \<^verbatim>\<open>makeRequestWithCredentials\<close> hands to the transport:
  \<^verbatim>\<open>{ method: httpCall.method, body: httpCall.payload }\<close>.
\<close>

definition requestInit :: "HttpCall \<Rightarrow> RequestInit" where
  "requestInit httpCall =
     \<lparr>requestMethod = httpMethod httpCall, body = payload httpCall, headers = None, credentials = None\<rparr>"

text \<open>
  The options of one attempt of a transport call: the credential held for the attempt is
  applied to the options of the call, \<^verbatim>\<open>applyCredentials(input)(credentials, init)\<close>.
\<close>

definition attemptInit :: "DVIDToken \<Rightarrow> HttpCall \<Rightarrow> RequestInit" where
  "attemptInit token httpCall = applyCredentials (url httpCall) token (requestInit httpCall)"

text \<open>Whether a request carries a bearer Authorization header.\<close>

definition bearerHeader :: "RequestInit \<Rightarrow> string option" where
  "bearerHeader init = map_of (spreadHeaders (headers init)) ''Authorization''"

text \<open>Whether a request enables ambient (cookie) credentials.\<close>

definition ambientCredentials :: "RequestInit \<Rightarrow> bool" where
  "ambientCredentials init = (credentials init = Some ''include'')"

definition exampleCall :: "string \<Rightarrow> HttpCall" where
  "exampleCall u = \<lparr>httpMethod = ''GET'', url = u, payload = None, responseType = ''json''\<rparr>"

subsection \<open>Failure classification and the retry loop\<close>

text \<open>
  The errors a promise of this code can reject with: an HTTP failure response carrying its
  status code, the cancellation outcome, a \<^verbatim>\<open>TypeError\<close> or \<^verbatim>\<open>RangeError\<close> thrown by
  the runtime, a malformed binary payload, and any other failure of the network layer.
\<close>

datatype error = HttpError int | Canceled | TypeError | RangeError | DecodeMalformed | NetworkError

text \<open>The two values the error handler may return, \<^verbatim>\<open>'refresh' | 'retry'\<close>.\<close>

datatype retryAction = Refresh | Retry

text \<open>
  The handler that \<^verbatim>\<open>fetchWithDVIDCredentials\<close> passes to \<^verbatim>\<open>fetchWithCredentials\<close>:
  \<^verbatim>\<open>
  error => {
    const { status } = error;
    if (status === 403 || status === 401) { return 'refresh'; }
    if (status === 504) { return 'retry'; }
    throw error;
  }
  \<close>
\<close>

definition errorHandler :: "int \<Rightarrow> error + retryAction" where
  "errorHandler status =
     (if status = 403 \<or> status = 401 then Inr Refresh
      else if status = 504 then Inr Retry
      else Inl (HttpError status))"

text \<open>What a transport call does, in order: requests sent and credential refreshes asked for.\<close>

datatype event = Request string RequestInit | RefreshCredentials

definition afterEvents :: "event list \<Rightarrow> ('r \<times> event list) option \<Rightarrow> ('r \<times> event list) option" where
  "afterEvents evs r = map_option (\<lambda>(res, evs'). (res, evs @ evs')) r"

text \<open>
  Modelled from the spec: \<^verbatim>\<open>fetchWithCredentials\<close> of
  \<^verbatim>\<open>neuroglancer/credentials_provider/http_request\<close> is not among the sources. Following
  section 4.1 of the specification: each attempt applies the credential currently held to
  the request; a failure response is handed to the error handler; \<^verbatim>\<open>'refresh'\<close> asks the
  credential provider for a refreshed credential and re-attempts the same call,
  \<^verbatim>\<open>'retry'\<close> re-attempts the same call with the credential unchanged, and an error thrown
  by the handler, like any error that is not a failure response, is propagated.

  \<open>provider g\<close> is the credential held after \<open>g\<close> refreshes. The last argument lists
  the outcomes of the successive attempts; the retries are not bounded by the code, so a
  call whose listed outcomes are used up without a final outcome has not returned
  (\<open>None\<close>).
\<close>

fun fetchWithCredentials ::
  "(nat \<Rightarrow> DVIDToken) \<Rightarrow> string \<Rightarrow> RequestInit \<Rightarrow> (DVIDToken \<Rightarrow> RequestInit \<Rightarrow> RequestInit) \<Rightarrow>
   (int \<Rightarrow> error + retryAction) \<Rightarrow> nat \<Rightarrow> (error + 'a) list \<Rightarrow> ((error + 'a) \<times> event list) option"
where
  "fetchWithCredentials provider input init apply handler gen [] = None"
| "fetchWithCredentials provider input init apply handler gen (r # rs) =
     (let sent = Request input (apply (provider gen) init) in
      case r of
        Inr response \<Rightarrow> Some (Inr response, [sent])
      | Inl err \<Rightarrow>
          (case err of
             HttpError status \<Rightarrow>
               (case handler status of
                  Inl thrown \<Rightarrow> Some (Inl thrown, [sent])
                | Inr Refresh \<Rightarrow>
                    afterEvents [sent, RefreshCredentials]
                      (fetchWithCredentials provider input init apply handler (Suc gen) rs)
                | Inr Retry \<Rightarrow>
                    afterEvents [sent]
                      (fetchWithCredentials provider input init apply handler gen rs))
           | _ \<Rightarrow> Some (Inl err, [sent])))"

text \<open>
  \<^verbatim>\<open>fetchWithDVIDCredentials\<close> and \<^verbatim>\<open>makeRequestWithCredentials\<close>. The response
  transform chosen from \<^verbatim>\<open>responseType\<close> is part of the listed outcomes.
\<close>

definition fetchWithDVIDCredentials ::
  "(nat \<Rightarrow> DVIDToken) \<Rightarrow> string \<Rightarrow> RequestInit \<Rightarrow> nat \<Rightarrow> (error + 'a) list \<Rightarrow>
   ((error + 'a) \<times> event list) option" where
  "fetchWithDVIDCredentials credentialsProvider input init gen outcomes =
     fetchWithCredentials credentialsProvider input init (applyCredentials input) errorHandler gen outcomes"

definition makeRequestWithCredentials ::
  "(nat \<Rightarrow> DVIDToken) \<Rightarrow> HttpCall \<Rightarrow> nat \<Rightarrow> (error + 'a) list \<Rightarrow> ((error + 'a) \<times> event list) option" where
  "makeRequestWithCredentials credentialsProvider httpCall gen outcomes =
     fetchWithDVIDCredentials credentialsProvider (url httpCall) (requestInit httpCall) gen outcomes"

text \<open>A provider whose credential after \<open>g\<close> refreshes is \<open>tok\<close> followed by \<open>g\<close> plus signs.\<close>

definition exampleProvider :: "nat \<Rightarrow> DVIDToken" where
  "exampleProvider g = ''tok'' @ replicate g (CHR ''+'')"

section \<open>Mesh fragments (datasource/dvid/backend.ts)\<close>

subsection \<open>The remote store as seen through the transport\<close>

text \<open>
  An \<^verbatim>\<open>ArrayBuffer\<close> is its bytes. A JSON response is used by the code in one way only:
  \<^verbatim>\<open>for (let key of keys)\<close> iterates it, and each element is converted to a string
  (\<^verbatim>\<open>`${keyBaseUrl}/${key}`\<close>, \<^verbatim>\<open>String(key)\<close>). So a JSON value is either the list of
  its elements, each as the string it converts to, or a value that cannot be iterated, on
  which \<^verbatim>\<open>for ... of\<close> throws a \<^verbatim>\<open>TypeError\<close>.
\<close>

type_synonym ArrayBuffer = "8 word list"

datatype json = Keys "string list" | NotIterable

text \<open>
  The final outcome of \<^verbatim>\<open>makeRequestWithCredentials(..., {method: 'GET', url, responseType})\<close>
  for the two response types the mesh source asks for, as a function of the URL: during one
  assembly the store answers the same URL the same way.
\<close>

record remote =
  requestJson :: "string \<Rightarrow> error + json"
  requestArrayBuffer :: "string \<Rightarrow> error + ArrayBuffer"

subsection \<open>Resolving a merge graph\<close>

text \<open>
  The block that occurs twice in \<^verbatim>\<open>downloadMergeFragment\<close>:
  \<^verbatim>\<open>
  try {
    let response = await makeRequestWithCredentials(this.credentialsProvider, {
      method: 'GET', url: meshUrl, responseType: 'arraybuffer'}, cancellationToken);
    data.push(response);
  } catch (e) { console.log(e); }
  \<close>
  The second component lists, in order, the URLs for which the transport has been called
  so far.
\<close>

definition tryPushLeaf ::
  "remote \<Rightarrow> string \<Rightarrow> ArrayBuffer list \<Rightarrow> string list \<Rightarrow> ArrayBuffer list \<times> string list" where
  "tryPushLeaf srv meshUrl data log =
     (case requestArrayBuffer srv meshUrl of
        Inr response \<Rightarrow> (data @ [response], log @ [meshUrl])
      | Inl e \<Rightarrow> (data, log @ [meshUrl]))"

text \<open>
  The loop \<^verbatim>\<open>for (let key of keys) { ... }\<close> of \<^verbatim>\<open>downloadMergeFragment\<close>, with the
  recursive call \<^verbatim>\<open>this.downloadMergeFragment(keyBaseUrl, response, key, cancellationToken)\<close>
  as the parameter \<open>recur\<close>:
  \<^verbatim>\<open>
  let url = `${keyBaseUrl}/${key}`;
  let meshUrl = url + '.ngmesh';
  if (String(masterKey) === String(key)) {
    try { ...; data.push(response); } catch(e) { console.log(e); }
  } else {
    await makeRequestWithCredentials(..., {method: 'GET', url: url + '.merge', responseType: 'json'}, ...)
      .then(response => this.downloadMergeFragment(keyBaseUrl, response, key, cancellationToken))
      .then(result => { data.push(...result); console.log(data.length); })
      .catch(async () => { try { ...; data.push(response); } catch (e) { console.log(e); } });
  }
  \<close>
\<close>

fun downloadMergeFragment_for ::
  "(json \<Rightarrow> string \<Rightarrow> string list \<Rightarrow> ((error + ArrayBuffer list) \<times> string list) option) \<Rightarrow>
   remote \<Rightarrow> string \<Rightarrow> string \<Rightarrow> string list \<Rightarrow> ArrayBuffer list \<Rightarrow> string list \<Rightarrow>
   (ArrayBuffer list \<times> string list) option"
where
  "downloadMergeFragment_for recur srv keyBaseUrl masterKey [] data log = Some (data, log)"
| "downloadMergeFragment_for recur srv keyBaseUrl masterKey (key # keys) data log =
     (let url = keyBaseUrl @ ''/'' @ key;
          meshUrl = url @ ''.ngmesh''
      in
      if masterKey = key then
        (case tryPushLeaf srv meshUrl data log of
           (data', log') \<Rightarrow> downloadMergeFragment_for recur srv keyBaseUrl masterKey keys data' log')
      else
        (case (case requestJson srv (url @ ''.merge'') of
                 Inl e \<Rightarrow> Some (Inl e, log @ [url @ ''.merge''])
               | Inr response \<Rightarrow> recur response key (log @ [url @ ''.merge''])) of
           None \<Rightarrow> None
         | Some (outcome, log1) \<Rightarrow>
             (case outcome of
                Inr result \<Rightarrow>
                  downloadMergeFragment_for recur srv keyBaseUrl masterKey keys (data @ result) log1
              | Inl e \<Rightarrow>
                  (case tryPushLeaf srv meshUrl data log1 of
                     (data', log') \<Rightarrow>
                       downloadMergeFragment_for recur srv keyBaseUrl masterKey keys data' log'))))"

text \<open>
  \<^verbatim>\<open>async downloadMergeFragment(keyBaseUrl, keys: any, masterKey: any, cancellationToken)\<close>:
  \<^verbatim>\<open>let data = new Array<ArrayBuffer>(); for (let key of keys) { ... } return data;\<close>

  The graph comes from the server and the code has no guard against cycles, so the walk
  need not end. The first argument bounds the nesting depth of the calls; \<open>None\<close> means
  that the call has not returned within the bound.
\<close>

primrec downloadMergeFragment ::
  "nat \<Rightarrow> remote \<Rightarrow> string \<Rightarrow> json \<Rightarrow> string \<Rightarrow> string list \<Rightarrow>
   ((error + ArrayBuffer list) \<times> string list) option"
where
  "downloadMergeFragment 0 srv keyBaseUrl keys masterKey log = None"
| "downloadMergeFragment (Suc depth) srv keyBaseUrl keys masterKey log =
     (case keys of
        NotIterable \<Rightarrow> Some (Inl TypeError, log)
      | Keys ks \<Rightarrow>
          map_option (\<lambda>(data, log'). (Inr data, log'))
            (downloadMergeFragment_for (downloadMergeFragment depth srv keyBaseUrl)
               srv keyBaseUrl masterKey ks [] log))"

text \<open>
  The rest of a loop run behind the leaves collected so far: the leaves that the remaining
  keys deliver are appended to \<open>leaves\<close>.
\<close>

definition continueWith ::
  "ArrayBuffer list \<Rightarrow> (ArrayBuffer list \<times> string list) option \<Rightarrow> (ArrayBuffer list \<times> string list) option" where
  "continueWith leaves r = map_option (\<lambda>(rest, log). (leaves @ rest, log)) r"

subsection \<open>The depth-first traversal the resolver is specified by\<close>

text \<open>The leaves one direct leaf fetch contributes: the leaf, or nothing when the fetch fails.\<close>

definition leafOrNothing :: "remote \<Rightarrow> string \<Rightarrow> ArrayBuffer list" where
  "leafOrNothing srv meshUrl =
     (case requestArrayBuffer srv meshUrl of Inr response \<Rightarrow> [response] | Inl e \<Rightarrow> [])"

text \<open>Concatenation in list order of leaf lists, none of which may be missing.\<close>

fun concatLeaves :: "'a list option list \<Rightarrow> 'a list option" where
  "concatLeaves [] = Some []"
| "concatLeaves (None # rest) = None"
| "concatLeaves (Some xs # rest) = map_option (\<lambda>ys. xs @ ys) (concatLeaves rest)"

text \<open>
  The leaves of the branch below one child key, given the traversal \<open>below\<close> of a merge
  document: the key's own leaf when the key is the master key or has no usable merge
  document, and the leaves of its merge document otherwise. The merge document of a child
  is traversed with the child key as master key, which is what the recursive call of the
  code passes.
\<close>

definition branchLeaves ::
  "(json \<Rightarrow> string \<Rightarrow> (error + ArrayBuffer list) option) \<Rightarrow> remote \<Rightarrow> string \<Rightarrow> string \<Rightarrow> string \<Rightarrow>
   ArrayBuffer list option" where
  "branchLeaves below srv keyBaseUrl masterKey key =
     (let url = keyBaseUrl @ ''/'' @ key; meshUrl = url @ ''.ngmesh'' in
      if masterKey = key then Some (leafOrNothing srv meshUrl)
      else
        (case requestJson srv (url @ ''.merge'') of
           Inl e \<Rightarrow> Some (leafOrNothing srv meshUrl)
         | Inr doc \<Rightarrow>
             (case below doc key of
                None \<Rightarrow> None
              | Some (Inl e) \<Rightarrow> Some (leafOrNothing srv meshUrl)
              | Some (Inr leaves) \<Rightarrow> Some leaves)))"

text \<open>
  The leaves of a merge document in depth-first, left-to-right order: the concatenation,
  in declared order of the child keys, of the leaves of each child's branch.
\<close>

primrec traverseDepthFirst ::
  "nat \<Rightarrow> remote \<Rightarrow> string \<Rightarrow> json \<Rightarrow> string \<Rightarrow> (error + ArrayBuffer list) option"
where
  "traverseDepthFirst 0 srv keyBaseUrl keys masterKey = None"
| "traverseDepthFirst (Suc depth) srv keyBaseUrl keys masterKey =
     (case keys of
        NotIterable \<Rightarrow> Some (Inl TypeError)
      | Keys ks \<Rightarrow>
          map_option Inr
            (concatLeaves
               (map (branchLeaves (traverseDepthFirst depth srv keyBaseUrl) srv keyBaseUrl masterKey) ks)))"

subsection \<open>Decoding leaves\<close>

datatype Endianness = LITTLE | BIG

text \<open>The value of a sequence of bytes, most significant byte first.\<close>

definition bigEndianValue :: "8 word list \<Rightarrow> nat" where
  "bigEndianValue bs = foldl (\<lambda>acc b. acc * 256 + unat b) 0 bs"

text \<open>
  \<^verbatim>\<open>new DataView(buffer).getUint32(byteOffset, littleEndian)\<close>: a \<^verbatim>\<open>RangeError\<close> is thrown
  when the four bytes do not lie inside the buffer.
\<close>

definition getUint32 :: "ArrayBuffer \<Rightarrow> nat \<Rightarrow> bool \<Rightarrow> error + nat" where
  "getUint32 buffer byteOffset littleEndian =
     (if length buffer < byteOffset + 4 then Inl RangeError
      else
        (let bs = take 4 (drop byteOffset buffer) in
         Inr (bigEndianValue (if littleEndian then rev bs else bs))))"

text \<open>
  \<^verbatim>\<open>
  export function decodeFragmentChunk(chunk: FragmentChunk, response: ArrayBuffer) {
    let dv = new DataView(response);
    let numVertices = dv.getUint32(0, true);
    assignMeshFragmentData(chunk,
      decodeTriangleVertexPositionsAndIndices(
        response, Endianness.LITTLE, /*vertexByteOffset=*/ 4, numVertices));
  }
  \<close>
  The parser \<^verbatim>\<open>decodeTriangleVertexPositionsAndIndices\<close> of \<^verbatim>\<open>neuroglancer/mesh/backend\<close>
  is a parameter; the value is the mesh data assigned to the chunk.
\<close>

definition decodeFragmentChunk ::
  "(ArrayBuffer \<Rightarrow> Endianness \<Rightarrow> nat \<Rightarrow> nat \<Rightarrow> error + 'g) \<Rightarrow> ArrayBuffer \<Rightarrow> error + 'g" where
  "decodeFragmentChunk decodeTriangles response =
     (case getUint32 response 0 True of
        Inl e \<Rightarrow> Inl e
      | Inr numVertices \<Rightarrow> decodeTriangles response LITTLE 4 numVertices)"

text \<open>
  The loop of \<^verbatim>\<open>decodeFragmentChunkM\<close>:
  \<^verbatim>\<open>
  for (let response of responses) {
    let dv = new DataView(response);
    let numVertices = dv.getUint32(0, true);
    numVerticesArray.push(numVertices);
  }
  \<close>
\<close>

fun decodeFragmentChunkM_for :: "ArrayBuffer list \<Rightarrow> nat list \<Rightarrow> error + nat list" where
  "decodeFragmentChunkM_for [] numVerticesArray = Inr numVerticesArray"
| "decodeFragmentChunkM_for (response # responses) numVerticesArray =
     (case getUint32 response 0 True of
        Inl e \<Rightarrow> Inl e
      | Inr numVertices \<Rightarrow> decodeFragmentChunkM_for responses (numVerticesArray @ [numVertices]))"

text \<open>
  \<^verbatim>\<open>
  export function decodeFragmentChunkM(chunk: FragmentChunk, responses: Array<ArrayBuffer>) {
    let numVerticesArray = new Array<number>();
    for (let response of responses) { ... }
    assignMeshFragmentData(chunk,
      decodeTriangleVertexPositionsAndIndicesM(
        responses, Endianness.LITTLE, /*vertexByteOffset=*/ 4, numVerticesArray));
  }
  \<close>
  with the parser \<^verbatim>\<open>decodeTriangleVertexPositionsAndIndicesM\<close> as a parameter.
\<close>

definition decodeFragmentChunkM ::
  "(ArrayBuffer list \<Rightarrow> Endianness \<Rightarrow> nat \<Rightarrow> nat list \<Rightarrow> error + 'g) \<Rightarrow> ArrayBuffer list \<Rightarrow> error + 'g" where
  "decodeFragmentChunkM decodeTrianglesM responses =
     (case decodeFragmentChunkM_for responses [] of
        Inl e \<Rightarrow> Inl e
      | Inr numVerticesArray \<Rightarrow> decodeTrianglesM responses LITTLE 4 numVerticesArray)"

subsection \<open>Assembling a fragment\<close>

text \<open>The parameters of the mesh source that \<^verbatim>\<open>downloadFragment\<close> reads.\<close>

record MeshSourceParameters =
  baseUrl :: string
  nodeKey :: string
  dataInstanceKey :: string

text \<open>
  \<^verbatim>\<open>
  const keyBaseUrl = `${parameters.baseUrl}/api/node/${parameters['nodeKey']}/${
    parameters['dataInstanceKey']}/key`;
  \<close>
\<close>

definition keyBaseUrlOf :: "MeshSourceParameters \<Rightarrow> string" where
  "keyBaseUrlOf parameters =
     baseUrl parameters @ ''/api/node/'' @ nodeKey parameters @ ''/'' @ dataInstanceKey parameters @ ''/key''"

text \<open>
  The promise that \<^verbatim>\<open>downloadFragment\<close> builds before its \<^verbatim>\<open>.catch\<close>:
  \<^verbatim>\<open>
  const mergeUrl = `${keyBaseUrl}/${chunk.fragmentId}.merge`;
  makeRequestWithCredentials(this.credentialsProvider, {
      method: 'GET', url: mergeUrl, responseType: 'json'}, cancellationToken)
    .then(response =>
      this.downloadMergeFragment(keyBaseUrl, response, chunk.fragmentId, cancellationToken)
        .then(data => decodeFragmentChunkM(chunk, data)))
  \<close>
\<close>

definition primaryPath ::
  "nat \<Rightarrow> remote \<Rightarrow> (ArrayBuffer list \<Rightarrow> Endianness \<Rightarrow> nat \<Rightarrow> nat list \<Rightarrow> error + 'g) \<Rightarrow>
   MeshSourceParameters \<Rightarrow> string \<Rightarrow> ((error + 'g) \<times> string list) option" where
  "primaryPath depth srv decodeTrianglesM parameters fragmentId =
     (let keyBaseUrl = keyBaseUrlOf parameters;
          mergeUrl = keyBaseUrl @ ''/'' @ fragmentId @ ''.merge''
      in
      case requestJson srv mergeUrl of
        Inl e \<Rightarrow> Some (Inl e, [mergeUrl])
      | Inr response \<Rightarrow>
          (case downloadMergeFragment depth srv keyBaseUrl response fragmentId [mergeUrl] of
             None \<Rightarrow> None
           | Some (outcome, log) \<Rightarrow>
               (case outcome of
                  Inl e \<Rightarrow> Some (Inl e, log)
                | Inr data \<Rightarrow> Some (decodeFragmentChunkM decodeTrianglesM data, log))))"

text \<open>
  The handler of the \<^verbatim>\<open>.catch\<close>:
  \<^verbatim>\<open>
  (e) => {
    console.log(e);
    const url = `${keyBaseUrl}/${chunk.fragmentId}.ngmesh`;
    return makeRequestWithCredentials(this.credentialsProvider, {
        method: 'GET', url: url, responseType: 'arraybuffer'}, cancellationToken)
      .then(response => decodeFragmentChunk(chunk, response));
  }
  \<close>
\<close>

definition fallbackPath ::
  "remote \<Rightarrow> (ArrayBuffer \<Rightarrow> Endianness \<Rightarrow> nat \<Rightarrow> nat \<Rightarrow> error + 'g) \<Rightarrow>
   MeshSourceParameters \<Rightarrow> string \<Rightarrow> string list \<Rightarrow> (error + 'g) \<times> string list" where
  "fallbackPath srv decodeTriangles parameters fragmentId log =
     (let url = keyBaseUrlOf parameters @ ''/'' @ fragmentId @ ''.ngmesh'' in
      case requestArrayBuffer srv url of
        Inl e \<Rightarrow> (Inl e, log @ [url])
      | Inr response \<Rightarrow> (decodeFragmentChunk decodeTriangles response, log @ [url]))"

text \<open>
  \<^verbatim>\<open>downloadFragment(chunk: FragmentChunk, cancellationToken: CancellationToken)\<close>: the
  promise of the primary path, with every rejection of it handled by the \<^verbatim>\<open>.catch\<close>.
\<close>

definition downloadFragment ::
  "nat \<Rightarrow> remote \<Rightarrow> (ArrayBuffer \<Rightarrow> Endianness \<Rightarrow> nat \<Rightarrow> nat \<Rightarrow> error + 'g) \<Rightarrow>
   (ArrayBuffer list \<Rightarrow> Endianness \<Rightarrow> nat \<Rightarrow> nat list \<Rightarrow> error + 'g) \<Rightarrow>
   MeshSourceParameters \<Rightarrow> string \<Rightarrow> ((error + 'g) \<times> string list) option" where
  "downloadFragment depth srv decodeTriangles decodeTrianglesM parameters fragmentId =
     (case primaryPath depth srv decodeTrianglesM parameters fragmentId of
        None \<Rightarrow> None
      | Some (outcome, log) \<Rightarrow>
          (case outcome of
             Inr geometry \<Rightarrow> Some (Inr geometry, log)
           | Inl e \<Rightarrow> Some (fallbackPath srv decodeTriangles parameters fragmentId log)))"

subsection \<open>The triangle parsers\<close>

text \<open>
  Modelled from the spec: the type \<^verbatim>\<open>EncodedMeshData\<close> of \<^verbatim>\<open>neuroglancer/mesh/backend\<close> is
  not among the sources. It is the mesh data handed to the consumer: the vertex buffer, one
  32-bit pattern per float component, and the index buffer.
\<close>

record EncodedMeshData =
  vertexPositions :: "32 word list"
  indices :: "nat list"

text \<open>
  Modelled from the spec: part of the absent triangle parsers. A byte sequence read as
  consecutive 32-bit unsigned integers.
\<close>

fun uint32s :: "Endianness \<Rightarrow> 8 word list \<Rightarrow> nat list" where
  "uint32s endianness (b0 # b1 # b2 # b3 # rest) =
     bigEndianValue (case endianness of LITTLE \<Rightarrow> [b3, b2, b1, b0] | BIG \<Rightarrow> [b0, b1, b2, b3])
       # uint32s endianness rest"
| "uint32s endianness bs = []"

text \<open>
  Modelled from the spec: \<^verbatim>\<open>decodeTriangleVertexPositionsAndIndices\<close> of
  \<^verbatim>\<open>neuroglancer/mesh/backend\<close> is not among the sources. Following section 4.3 of the
  specification: the bytes from the vertex offset up to \<open>12 * count\<close> bytes further are
  \<open>count\<close> triples of 32-bit floats; the remaining bytes are a stream of 32-bit unsigned
  indices whose length must be divisible by 3; a buffer too short for the declared count
  and an index stream that is not a whole number of triangles are decode errors.
\<close>

definition decodeTriangleVertexPositionsAndIndices ::
  "ArrayBuffer \<Rightarrow> Endianness \<Rightarrow> nat \<Rightarrow> nat \<Rightarrow> error + EncodedMeshData" where
  "decodeTriangleVertexPositionsAndIndices data endianness vertexByteOffset numVertices =
     (let indexByteOffset = vertexByteOffset + 12 * numVertices in
      if length data < indexByteOffset then Inl DecodeMalformed
      else
        (let indexBytes = drop indexByteOffset data in
         if length indexBytes mod 4 \<noteq> 0 \<or> (length indexBytes div 4) mod 3 \<noteq> 0 then Inl DecodeMalformed
         else
           Inr \<lparr>vertexPositions =
                  map word_of_nat
                    (uint32s endianness (take (12 * numVertices) (drop vertexByteOffset data))),
                indices = uint32s endianness indexBytes\<rparr>))"

text \<open>
  Modelled from the spec: part of the absent \<^verbatim>\<open>decodeTriangleVertexPositionsAndIndicesM\<close>.
  Each leaf is decoded on its own, with its declared vertex count; the first error ends it.
\<close>

fun decodeEach ::
  "ArrayBuffer list \<Rightarrow> Endianness \<Rightarrow> nat \<Rightarrow> nat list \<Rightarrow> error + EncodedMeshData list" where
  "decodeEach [] endianness vertexByteOffset counts = Inr []"
| "decodeEach (response # responses) endianness vertexByteOffset [] = Inl DecodeMalformed"
| "decodeEach (response # responses) endianness vertexByteOffset (numVertices # counts) =
     (case decodeTriangleVertexPositionsAndIndices response endianness vertexByteOffset numVertices of
        Inl e \<Rightarrow> Inl e
      | Inr mesh \<Rightarrow>
          (case decodeEach responses endianness vertexByteOffset counts of
             Inl e \<Rightarrow> Inl e
           | Inr meshes \<Rightarrow> Inr (mesh # meshes)))"

text \<open>
  Modelled from the spec: part of the absent \<^verbatim>\<open>decodeTriangleVertexPositionsAndIndicesM\<close>.
  Positions are concatenated in leaf order; indices are concatenated with the running
  vertex offset added, the offset growing by each leaf's vertex count.
\<close>

fun concatMeshes :: "nat \<Rightarrow> (nat \<times> EncodedMeshData) list \<Rightarrow> EncodedMeshData" where
  "concatMeshes offset [] = \<lparr>vertexPositions = [], indices = []\<rparr>"
| "concatMeshes offset ((numVertices, mesh) # rest) =
     (let merged = concatMeshes (offset + numVertices) rest in
      \<lparr>vertexPositions = vertexPositions mesh @ vertexPositions merged,
       indices = map (\<lambda>i. i + offset) (indices mesh) @ indices merged\<rparr>)"

text \<open>
  Modelled from the spec: \<^verbatim>\<open>decodeTriangleVertexPositionsAndIndicesM\<close> of
  \<^verbatim>\<open>neuroglancer/mesh/backend\<close> is not among the sources. Following section 4.3 of the
  specification: decode each leaf independently, then concatenate positions in leaf order
  and concatenate indices with a running vertex-offset add.
\<close>

definition decodeTriangleVertexPositionsAndIndicesM ::
  "ArrayBuffer list \<Rightarrow> Endianness \<Rightarrow> nat \<Rightarrow> nat list \<Rightarrow> error + EncodedMeshData" where
  "decodeTriangleVertexPositionsAndIndicesM responses endianness vertexByteOffset numVerticesArray =
     (case decodeEach responses endianness vertexByteOffset numVerticesArray of
        Inl e \<Rightarrow> Inl e
      | Inr meshes \<Rightarrow> Inr (concatMeshes 0 (zip numVerticesArray meshes)))"

text \<open>The vertex count a leaf declares in its header, and the offset of the \<open>i\<close>-th leaf.\<close>

definition declaredCount :: "ArrayBuffer \<Rightarrow> nat" where
  "declaredCount leaf = bigEndianValue (rev (take 4 leaf))"


section \<open>Example data\<close>

text \<open>
  Two leaves: three vertices with one triangle, and two vertices with one (degenerate)
  triangle.
\<close>

definition leafA :: ArrayBuffer where
  "leafA = [3, 0, 0, 0] @
           [1, 0, 0, 0,  0, 0, 0, 0,  0, 0, 0, 0,
            0, 0, 0, 0,  1, 0, 0, 0,  0, 0, 0, 0,
            0, 0, 0, 0,  0, 0, 0, 0,  1, 0, 0, 0] @
           [0, 0, 0, 0,  1, 0, 0, 0,  2, 0, 0, 0]"

definition leafB :: ArrayBuffer where
  "leafB = [2, 0, 0, 0] @
           [2, 0, 0, 0,  0, 0, 0, 0,  0, 0, 0, 0,
            0, 0, 0, 0,  2, 0, 0, 0,  0, 0, 0, 0] @
           [0, 0, 0, 0,  1, 0, 0, 0,  1, 0, 0, 0]"


text \<open>
  A store under the key base URL \<open>s/api/node/n/m/key\<close>. Fragment 7 is merged from 8
  and 7, where 8 has no merge document of its own; fragment 9 has no merge document;
  fragment 5 lists itself and the key 6, for which the store has nothing; everything else
  is answered with status 404.
\<close>

definition exampleParameters :: MeshSourceParameters where
  "exampleParameters = \<lparr>baseUrl = ''s'', nodeKey = ''n'', dataInstanceKey = ''m''\<rparr>"

definition exampleStore :: remote where
  "exampleStore =
     \<lparr>requestJson = (\<lambda>u.
        if u = ''s/api/node/n/m/key/7.merge'' then Inr (Keys [''8'', ''7''])
        else if u = ''s/api/node/n/m/key/5.merge'' then Inr (Keys [''6'', ''5''])
        else Inl (HttpError 404)),
      requestArrayBuffer = (\<lambda>u.
        if u = ''s/api/node/n/m/key/7.ngmesh'' then Inr leafA
        else if u = ''s/api/node/n/m/key/8.ngmesh'' then Inr leafB
        else if u = ''s/api/node/n/m/key/9.ngmesh'' then Inr leafA
        else Inl (HttpError 404))\<rparr>"

text \<open>A store on which every request ends with the cancellation outcome.\<close>

definition canceledStore :: remote where
  "canceledStore = \<lparr>requestJson = (\<lambda>u. Inl Canceled), requestArrayBuffer = (\<lambda>u. Inl Canceled)\<rparr>"

section \<open>One step of the resolver's loop\<close>

lemma for_Cons_master:
  "downloadMergeFragment_for recur srv b m (m # keys) data log =
     downloadMergeFragment_for recur srv b m keys
       (data @ leafOrNothing srv (b @ ''/'' @ m @ ''.ngmesh'')) (log @ [b @ ''/'' @ m @ ''.ngmesh''])"
  by (simp add: tryPushLeaf_def leafOrNothing_def Let_def split: sum.splits)

lemma for_Cons_merge_failed:
  "m \<noteq> key \<Longrightarrow> requestJson srv (b @ ''/'' @ key @ ''.merge'') = Inl e \<Longrightarrow>
   downloadMergeFragment_for recur srv b m (key # keys) data log =
     downloadMergeFragment_for recur srv b m keys
       (data @ leafOrNothing srv (b @ ''/'' @ key @ ''.ngmesh''))
       (log @ [b @ ''/'' @ key @ ''.merge'', b @ ''/'' @ key @ ''.ngmesh''])"
  by (simp add: tryPushLeaf_def leafOrNothing_def Let_def split: sum.splits)

lemma for_Cons_recur_none:
  "m \<noteq> key \<Longrightarrow> requestJson srv (b @ ''/'' @ key @ ''.merge'') = Inr doc \<Longrightarrow>
   recur doc key (log @ [b @ ''/'' @ key @ ''.merge'']) = None \<Longrightarrow>
   downloadMergeFragment_for recur srv b m (key # keys) data log = None"
  by (simp add: Let_def)

lemma for_Cons_recur_failed:
  "m \<noteq> key \<Longrightarrow> requestJson srv (b @ ''/'' @ key @ ''.merge'') = Inr doc \<Longrightarrow>
   recur doc key (log @ [b @ ''/'' @ key @ ''.merge'']) = Some (Inl e, log1) \<Longrightarrow>
   downloadMergeFragment_for recur srv b m (key # keys) data log =
     downloadMergeFragment_for recur srv b m keys
       (data @ leafOrNothing srv (b @ ''/'' @ key @ ''.ngmesh''))
       (log1 @ [b @ ''/'' @ key @ ''.ngmesh''])"
  by (simp add: tryPushLeaf_def leafOrNothing_def Let_def split: sum.splits)

lemma for_Cons_recur_ok:
  "m \<noteq> key \<Longrightarrow> requestJson srv (b @ ''/'' @ key @ ''.merge'') = Inr doc \<Longrightarrow>
   recur doc key (log @ [b @ ''/'' @ key @ ''.merge'']) = Some (Inr result, log1) \<Longrightarrow>
   downloadMergeFragment_for recur srv b m (key # keys) data log =
     downloadMergeFragment_for recur srv b m keys (data @ result) log1"
  by (simp add: Let_def)

text \<open>The leaves collected before a key is reached stay in front of everything after it.\<close>

lemma for_data_prefix:
  "downloadMergeFragment_for recur srv b m ks (data @ d0) log =
     map_option (\<lambda>(d, l). (data @ d, l)) (downloadMergeFragment_for recur srv b m ks d0 log)"
proof (induction ks arbitrary: d0 log)
  case Nil
  show ?case by simp
next
  case (Cons key keys)
  show ?case
  proof (cases "m = key")
    case True
    then show ?thesis using Cons.IH [of "d0 @ leafOrNothing srv (b @ ''/'' @ m @ ''.ngmesh'')"]
      by (simp add: for_Cons_master del: downloadMergeFragment_for.simps)
  next
    case False
    show ?thesis
    proof (cases "requestJson srv (b @ ''/'' @ key @ ''.merge'')")
      case (Inl e)
      show ?thesis using Cons.IH [of "d0 @ leafOrNothing srv (b @ ''/'' @ key @ ''.ngmesh'')"]
        by (simp add: for_Cons_merge_failed [OF False Inl] del: downloadMergeFragment_for.simps)
    next
      case (Inr doc)
      show ?thesis
      proof (cases "recur doc key (log @ [b @ ''/'' @ key @ ''.merge''])")
        case None
        show ?thesis
          by (simp add: for_Cons_recur_none [where recur=recur, OF False Inr None]
                del: downloadMergeFragment_for.simps)
      next
        case (Some p)
        obtain outcome log1 where p: "p = (outcome, log1)" by (cases p)
        show ?thesis
        proof (cases outcome)
          case (Inl e)
          with Some p have r: "recur doc key (log @ [b @ ''/'' @ key @ ''.merge'']) = Some (Inl e, log1)"
            by simp
          show ?thesis using Cons.IH [of "d0 @ leafOrNothing srv (b @ ''/'' @ key @ ''.ngmesh'')"]
            by (simp add: for_Cons_recur_failed [where recur=recur, OF False Inr r]
                  del: downloadMergeFragment_for.simps)
        next
          case (Inr result)
          with Some p have r: "recur doc key (log @ [b @ ''/'' @ key @ ''.merge'']) = Some (Inr result, log1)"
            by simp
          show ?thesis using Cons.IH [of "d0 @ result"]
            by (simp add: for_Cons_recur_ok [where recur=recur, OF False \<open>requestJson srv _ = Inr doc\<close> r]
                  del: downloadMergeFragment_for.simps)
        qed
      qed
    qed
  qed
qed

lemma for_from_empty:
  "downloadMergeFragment_for recur srv b m ks data log =
     map_option (\<lambda>(d, l). (data @ d, l)) (downloadMergeFragment_for recur srv b m ks [] log)"
  using for_data_prefix [of recur srv b m ks data "[]" log] by simp

text \<open>The loop computes the concatenation of the branches, whatever the nested calls compute.\<close>

lemma for_refines:
  assumes below: "\<And>doc key log. map_option fst (recur doc key log) = below doc key"
  shows "map_option fst (downloadMergeFragment_for recur srv b m ks data log) =
         map_option (\<lambda>ls. data @ ls) (concatLeaves (map (branchLeaves below srv b m) ks))"
proof (induction ks arbitrary: data log)
  case Nil
  show ?case by simp
next
  case (Cons key keys)
  note [simp del] = downloadMergeFragment_for.simps
  show ?case
  proof (cases "m = key")
    case True
    have head: "branchLeaves below srv b m m = Some (leafOrNothing srv (b @ ''/'' @ m @ ''.ngmesh''))"
      by (simp add: branchLeaves_def)
    show ?thesis unfolding True [symmetric]
      by (simp add: for_Cons_master head Cons.IH option.map_comp comp_def)
  next
    case False
    show ?thesis
    proof (cases "requestJson srv (b @ ''/'' @ key @ ''.merge'')")
      case (Inl e)
      have head: "branchLeaves below srv b m key = Some (leafOrNothing srv (b @ ''/'' @ key @ ''.ngmesh''))"
        using False Inl by (simp add: branchLeaves_def)
      show ?thesis
        by (simp add: for_Cons_merge_failed [OF False Inl] head Cons.IH option.map_comp comp_def)
    next
      case (Inr doc)
      have b': "map_option fst (recur doc key (log @ [b @ ''/'' @ key @ ''.merge''])) = below doc key"
        by (rule below)
      show ?thesis
      proof (cases "recur doc key (log @ [b @ ''/'' @ key @ ''.merge''])")
        case None
        with b' have "below doc key = None" by simp
        then have head: "branchLeaves below srv b m key = None"
          using False Inr by (simp add: branchLeaves_def)
        show ?thesis
          by (simp add: for_Cons_recur_none [where recur=recur, OF False Inr None] head)
      next
        case (Some p)
        obtain outcome log1 where p: "p = (outcome, log1)" by (cases p)
        with Some b' have bk: "below doc key = Some outcome" by simp
        show ?thesis
        proof (cases outcome)
          case (Inl e)
          with Some p have r: "recur doc key (log @ [b @ ''/'' @ key @ ''.merge'']) = Some (Inl e, log1)"
            by simp
          have head: "branchLeaves below srv b m key = Some (leafOrNothing srv (b @ ''/'' @ key @ ''.ngmesh''))"
            using False \<open>requestJson srv _ = Inr doc\<close> bk Inl by (simp add: branchLeaves_def)
          show ?thesis
            by (simp add: for_Cons_recur_failed [where recur=recur, OF False \<open>requestJson srv _ = Inr doc\<close> r]
                  head Cons.IH option.map_comp comp_def)
        next
          case (Inr result)
          with Some p have r: "recur doc key (log @ [b @ ''/'' @ key @ ''.merge'']) = Some (Inr result, log1)"
            by simp
          have head: "branchLeaves below srv b m key = Some result"
            using False \<open>requestJson srv _ = Inr doc\<close> bk Inr by (simp add: branchLeaves_def)
          show ?thesis
            by (simp add: for_Cons_recur_ok [where recur=recur, OF False \<open>requestJson srv _ = Inr doc\<close> r]
                  head Cons.IH option.map_comp comp_def)
        qed
      qed
    qed
  qed
qed

text \<open>A call that has returned within a depth bound returns the same with a larger bound.\<close>

lemma for_mono:
  assumes le: "\<And>doc key log r. recur doc key log = Some r \<Longrightarrow> recur' doc key log = Some r"
  shows "downloadMergeFragment_for recur srv b m ks data log = Some res \<Longrightarrow>
         downloadMergeFragment_for recur' srv b m ks data log = Some res"
proof (induction ks arbitrary: data log)
  case Nil
  then show ?case by simp
next
  case (Cons key keys)
  note [simp del] = downloadMergeFragment_for.simps
  show ?case
  proof (cases "m = key")
    case True
    from Cons.prems Cons.IH show ?thesis unfolding True [symmetric]
      by (simp add: for_Cons_master)
  next
    case False
    show ?thesis
    proof (cases "requestJson srv (b @ ''/'' @ key @ ''.merge'')")
      case (Inl e)
      from Cons.prems Cons.IH show ?thesis
        by (simp add: for_Cons_merge_failed [OF False Inl])
    next
      case (Inr doc)
      show ?thesis
      proof (cases "recur doc key (log @ [b @ ''/'' @ key @ ''.merge''])")
        case None
        with Cons.prems show ?thesis
          by (simp add: for_Cons_recur_none [where recur=recur, OF False Inr None])
      next
        case (Some p)
        then have Some': "recur' doc key (log @ [b @ ''/'' @ key @ ''.merge'']) = Some p"
          by (rule le)
        obtain outcome log1 where p: "p = (outcome, log1)" by (cases p)
        show ?thesis
        proof (cases outcome)
          case (Inl e)
          with Some Some' p have r: "recur doc key (log @ [b @ ''/'' @ key @ ''.merge'']) = Some (Inl e, log1)"
            and r': "recur' doc key (log @ [b @ ''/'' @ key @ ''.merge'']) = Some (Inl e, log1)"
            by simp_all
          from Cons.prems Cons.IH show ?thesis
            by (simp add: for_Cons_recur_failed [where recur=recur, OF False \<open>requestJson srv _ = Inr doc\<close> r]
                  for_Cons_recur_failed [where recur=recur', OF False \<open>requestJson srv _ = Inr doc\<close> r'])
        next
          case (Inr result)
          with Some Some' p have r: "recur doc key (log @ [b @ ''/'' @ key @ ''.merge'']) = Some (Inr result, log1)"
            and r': "recur' doc key (log @ [b @ ''/'' @ key @ ''.merge'']) = Some (Inr result, log1)"
            by simp_all
          from Cons.prems Cons.IH show ?thesis
            by (simp add: for_Cons_recur_ok [where recur=recur, OF False \<open>requestJson srv _ = Inr doc\<close> r]
                  for_Cons_recur_ok [where recur=recur', OF False \<open>requestJson srv _ = Inr doc\<close> r'])
        qed
      qed
    qed
  qed
qed

lemma downloadMergeFragment_depth_mono:
  "downloadMergeFragment depth srv b keys m log = Some res \<Longrightarrow>
   downloadMergeFragment (Suc depth) srv b keys m log = Some res"
proof (induction depth arbitrary: keys m log res)
  case 0
  then show ?case by simp
next
  case (Suc depth)
  show ?case
  proof (cases keys)
    case NotIterable
    with Suc.prems show ?thesis by simp
  next
    case (Keys ks)
    with Suc.prems obtain d l where
      f: "downloadMergeFragment_for (downloadMergeFragment depth srv b) srv b m ks [] log = Some (d, l)"
      and res: "res = (Inr d, l)"
      by auto
    have "downloadMergeFragment_for (downloadMergeFragment (Suc depth) srv b) srv b m ks [] log = Some (d, l)"
      using f by (rule for_mono [rotated]) (rule Suc.IH)
    with Keys res show ?thesis by simp
  qed
qed

section \<open>Reading the header of a leaf\<close>

lemma four_bytes:
  assumes "4 \<le> length (r :: 'a list)"
  obtains b0 b1 b2 b3 rest where "r = b0 # b1 # b2 # b3 # rest"
proof -
  from assms obtain b0 r1 where r: "r = b0 # r1" by (cases r) auto
  with assms obtain b1 r2 where r1: "r1 = b1 # r2" by (cases r1) auto
  with r assms obtain b2 r3 where r2: "r2 = b2 # r3" by (cases r2) auto
  with r r1 assms obtain b3 rest where r3: "r3 = b3 # rest" by (cases r3) auto
  from r r1 r2 r3 that show thesis by simp
qed

lemma getUint32_header:
  assumes "4 \<le> length r"
  shows "getUint32 r 0 True =
           Inr (unat (r ! 0) + 256 * unat (r ! 1) + 65536 * unat (r ! 2) + 16777216 * unat (r ! 3))"
proof -
  from assms obtain b0 b1 b2 b3 rest where "r = b0 # b1 # b2 # b3 # rest"
    by (rule four_bytes)
  then show ?thesis
    by (simp add: getUint32_def bigEndianValue_def)
qed

lemma getUint32_declaredCount: "4 \<le> length r \<Longrightarrow> getUint32 r 0 True = Inr (declaredCount r)"
  by (simp add: getUint32_def declaredCount_def)

lemma getUint32_short: "length r < 4 \<Longrightarrow> getUint32 r 0 True = Inl RangeError"
  by (simp add: getUint32_def)

lemma decodeFragmentChunkM_for_counts:
  "\<forall>r\<in>set rs. 4 \<le> length r \<Longrightarrow>
   decodeFragmentChunkM_for rs acc = Inr (acc @ map declaredCount rs)"
  by (induction rs arbitrary: acc) (simp_all add: getUint32_declaredCount)

section \<open>Concatenating decoded leaves\<close>








section \<open>The merge graph resolver\<close>

text \<open>
  Claim C2. When the loop of a resolve call reaches a key that is not the master key and
  the fetch of the key's \<open>.merge\<close> document fails, the key's leaf is fetched directly.
  If that fetch succeeds the leaf is appended to the leaves collected so far; if it fails
  too, the branch contributes nothing. Either way the loop goes on with the remaining keys
  and whatever they deliver is returned behind the leaves collected so far, and the resolve
  call does not reject.
\<close>

theorem merge_failure_falls_back_to_leaf:
  assumes "key \<noteq> masterKey"
    and "requestJson srv (keyBaseUrl @ ''/'' @ key @ ''.merge'') = Inl e"
  shows "(\<forall>leaf. requestArrayBuffer srv (keyBaseUrl @ ''/'' @ key @ ''.ngmesh'') = Inr leaf \<longrightarrow>
            downloadMergeFragment_for recur srv keyBaseUrl masterKey (key # keys) data log =
              continueWith (data @ [leaf])
                (downloadMergeFragment_for recur srv keyBaseUrl masterKey keys []
                   (log @ [keyBaseUrl @ ''/'' @ key @ ''.merge'', keyBaseUrl @ ''/'' @ key @ ''.ngmesh'']))) \<and>
         (\<forall>e'. requestArrayBuffer srv (keyBaseUrl @ ''/'' @ key @ ''.ngmesh'') = Inl e' \<longrightarrow>
            downloadMergeFragment_for recur srv keyBaseUrl masterKey (key # keys) data log =
              continueWith data
                (downloadMergeFragment_for recur srv keyBaseUrl masterKey keys []
                   (log @ [keyBaseUrl @ ''/'' @ key @ ''.merge'', keyBaseUrl @ ''/'' @ key @ ''.ngmesh'']))) \<and>
         (\<forall>e' log'. downloadMergeFragment depth srv keyBaseUrl (Keys (key # keys)) masterKey log
                      \<noteq> Some (Inl e', log'))"
proof -
  let ?meshUrl = "keyBaseUrl @ ''/'' @ key @ ''.ngmesh''"
  let ?log = "log @ [keyBaseUrl @ ''/'' @ key @ ''.merge'', ?meshUrl]"
  have ne: "masterKey \<noteq> key" using assms(1) by simp
  have step: "downloadMergeFragment_for recur srv keyBaseUrl masterKey (key # keys) data log =
          continueWith (data @ leafOrNothing srv ?meshUrl)
            (downloadMergeFragment_for recur srv keyBaseUrl masterKey keys [] ?log)"
    using for_from_empty [of recur srv keyBaseUrl masterKey keys "data @ leafOrNothing srv ?meshUrl" ?log]
    by (simp add: for_Cons_merge_failed [OF ne assms(2)] continueWith_def
          del: downloadMergeFragment_for.simps)
  have ok: "requestArrayBuffer srv ?meshUrl = Inr leaf \<Longrightarrow> leafOrNothing srv ?meshUrl = [leaf]" for leaf
    by (simp add: leafOrNothing_def)
  have failed: "requestArrayBuffer srv ?meshUrl = Inl e' \<Longrightarrow> leafOrNothing srv ?meshUrl = []" for e'
    by (simp add: leafOrNothing_def)
  have returns: "downloadMergeFragment depth srv keyBaseUrl (Keys (key # keys)) masterKey log
                   \<noteq> Some (Inl e', log')" for e' log'
    by (cases depth) (auto simp del: downloadMergeFragment_for.simps)
  show ?thesis
    using step ok failed returns by (simp del: downloadMergeFragment_for.simps)
qed

theorem merge_failure_falls_back_to_leaf_witness:
  "''8'' \<noteq> ''7'' \<and>
   requestJson exampleStore ''s/api/node/n/m/key/8.merge'' = Inl (HttpError 404) \<and>
   requestArrayBuffer exampleStore ''s/api/node/n/m/key/8.ngmesh'' = Inr leafB \<and>
   downloadMergeFragment_for (downloadMergeFragment 0 exampleStore ''s/api/node/n/m/key'')
       exampleStore ''s/api/node/n/m/key'' ''7'' [''8'', ''7''] [] [] =
     continueWith [leafB]
       (downloadMergeFragment_for (downloadMergeFragment 0 exampleStore ''s/api/node/n/m/key'')
          exampleStore ''s/api/node/n/m/key'' ''7'' [''7''] []
          [''s/api/node/n/m/key/8.merge'', ''s/api/node/n/m/key/8.ngmesh'']) \<and>
   downloadMergeFragment 1 exampleStore ''s/api/node/n/m/key'' (Keys [''8'', ''7'']) ''7'' [] =
     Some (Inr [leafB, leafA],
       [''s/api/node/n/m/key/8.merge'', ''s/api/node/n/m/key/8.ngmesh'', ''s/api/node/n/m/key/7.ngmesh''])"
proof -
  have h1: "''8'' \<noteq> ''7''" by simp
  have h2: "requestJson exampleStore (''s/api/node/n/m/key'' @ ''/'' @ ''8'' @ ''.merge'') = Inl (HttpError 404)"
    by (simp add: exampleStore_def)
  have h3: "requestArrayBuffer exampleStore ''s/api/node/n/m/key/8.ngmesh'' = Inr leafB"
    by (simp add: exampleStore_def)
  have run: "downloadMergeFragment 1 exampleStore ''s/api/node/n/m/key'' (Keys [''8'', ''7'']) ''7'' [] =
     Some (Inr [leafB, leafA],
       [''s/api/node/n/m/key/8.merge'', ''s/api/node/n/m/key/8.ngmesh'', ''s/api/node/n/m/key/7.ngmesh''])"
    by (simp add: exampleStore_def tryPushLeaf_def)
  from merge_failure_falls_back_to_leaf [OF h1 h2,
      where recur = "downloadMergeFragment 0 exampleStore ''s/api/node/n/m/key''"
        and keys = "[''7'']" and data = "[]" and log = "[]"]
  have "downloadMergeFragment_for (downloadMergeFragment 0 exampleStore ''s/api/node/n/m/key'')
       exampleStore ''s/api/node/n/m/key'' ''7'' [''8'', ''7''] [] [] =
     continueWith [leafB]
       (downloadMergeFragment_for (downloadMergeFragment 0 exampleStore ''s/api/node/n/m/key'')
          exampleStore ''s/api/node/n/m/key'' ''7'' [''7''] []
          [''s/api/node/n/m/key/8.merge'', ''s/api/node/n/m/key/8.ngmesh''])"
    using h3 by (simp del: downloadMergeFragment_for.simps)
  with h1 h2 h3 run show ?thesis by (simp del: downloadMergeFragment_for.simps)
qed

text \<open>
  Claim C4, as stated: a failed fetch of the master key's leaf propagates to the caller of
  resolve. It does not: in the example store the leaf of key 5 is answered with status
  404, and the resolve call over the keys \<open>[5]\<close> with master key 5 returns the empty
  leaf list.
\<close>

theorem master_leaf_failure_propagates_counterexample:
  "requestArrayBuffer exampleStore ''s/api/node/n/m/key/5.ngmesh'' = Inl (HttpError 404) \<and>
   downloadMergeFragment 1 exampleStore ''s/api/node/n/m/key'' (Keys [''5'']) ''5'' [] =
     Some (Inr [], [''s/api/node/n/m/key/5.ngmesh''])"
  by (simp add: exampleStore_def tryPushLeaf_def)

text \<open>
  Claim C4, amended. When the loop of a resolve call reaches the master key, the key's
  leaf is fetched directly at the key's leaf URL, with no request for a merge document. On
  success the key contributes exactly that one leaf. On failure the error is caught and
  logged, the key contributes nothing, and the loop goes on with the remaining keys.
\<close>

theorem master_key_leaf_fetched_directly:
  "(\<forall>leaf. requestArrayBuffer srv (keyBaseUrl @ ''/'' @ masterKey @ ''.ngmesh'') = Inr leaf \<longrightarrow>
      downloadMergeFragment_for recur srv keyBaseUrl masterKey (masterKey # keys) data log =
        continueWith (data @ [leaf])
          (downloadMergeFragment_for recur srv keyBaseUrl masterKey keys []
             (log @ [keyBaseUrl @ ''/'' @ masterKey @ ''.ngmesh'']))) \<and>
   (\<forall>e. requestArrayBuffer srv (keyBaseUrl @ ''/'' @ masterKey @ ''.ngmesh'') = Inl e \<longrightarrow>
      downloadMergeFragment_for recur srv keyBaseUrl masterKey (masterKey # keys) data log =
        continueWith data
          (downloadMergeFragment_for recur srv keyBaseUrl masterKey keys []
             (log @ [keyBaseUrl @ ''/'' @ masterKey @ ''.ngmesh''])))"
proof -
  let ?meshUrl = "keyBaseUrl @ ''/'' @ masterKey @ ''.ngmesh''"
  have step: "downloadMergeFragment_for recur srv keyBaseUrl masterKey (masterKey # keys) data log =
          continueWith (data @ leafOrNothing srv ?meshUrl)
            (downloadMergeFragment_for recur srv keyBaseUrl masterKey keys [] (log @ [?meshUrl]))"
    using for_from_empty [of recur srv keyBaseUrl masterKey keys "data @ leafOrNothing srv ?meshUrl"
        "log @ [?meshUrl]"]
    by (simp add: for_Cons_master continueWith_def del: downloadMergeFragment_for.simps)
  have ok: "requestArrayBuffer srv ?meshUrl = Inr leaf \<Longrightarrow> leafOrNothing srv ?meshUrl = [leaf]" for leaf
    by (simp add: leafOrNothing_def)
  have failed: "requestArrayBuffer srv ?meshUrl = Inl e \<Longrightarrow> leafOrNothing srv ?meshUrl = []" for e
    by (simp add: leafOrNothing_def)
  show ?thesis
    using step ok failed by (simp del: downloadMergeFragment_for.simps)
qed

theorem master_key_leaf_fetched_directly_witness:
  "requestArrayBuffer exampleStore ''s/api/node/n/m/key/7.ngmesh'' = Inr leafA \<and>
   downloadMergeFragment_for (downloadMergeFragment 0 exampleStore ''s/api/node/n/m/key'')
       exampleStore ''s/api/node/n/m/key'' ''7'' [''7''] [leafB] [] =
     Some ([leafB, leafA], [''s/api/node/n/m/key/7.ngmesh'']) \<and>
   requestArrayBuffer exampleStore ''s/api/node/n/m/key/5.ngmesh'' = Inl (HttpError 404) \<and>
   downloadMergeFragment_for (downloadMergeFragment 0 exampleStore ''s/api/node/n/m/key'')
       exampleStore ''s/api/node/n/m/key'' ''5'' [''5''] [leafB] [] =
     Some ([leafB], [''s/api/node/n/m/key/5.ngmesh''])"
proof -
  have h7: "requestArrayBuffer exampleStore ''s/api/node/n/m/key/7.ngmesh'' = Inr leafA"
    by (simp add: exampleStore_def)
  have h5: "requestArrayBuffer exampleStore ''s/api/node/n/m/key/5.ngmesh'' = Inl (HttpError 404)"
    by (simp add: exampleStore_def)
  from master_key_leaf_fetched_directly [where srv = exampleStore and keyBaseUrl = "''s/api/node/n/m/key''"
      and masterKey = "''7''" and keys = "[]" and data = "[leafB]" and log = "[]"
      and recur = "downloadMergeFragment 0 exampleStore ''s/api/node/n/m/key''"] h7
  have r7: "downloadMergeFragment_for (downloadMergeFragment 0 exampleStore ''s/api/node/n/m/key'')
       exampleStore ''s/api/node/n/m/key'' ''7'' [''7''] [leafB] [] =
     Some ([leafB, leafA], [''s/api/node/n/m/key/7.ngmesh''])"
    by (simp add: continueWith_def)
  from master_key_leaf_fetched_directly [where srv = exampleStore and keyBaseUrl = "''s/api/node/n/m/key''"
      and masterKey = "''5''" and keys = "[]" and data = "[leafB]" and log = "[]"
      and recur = "downloadMergeFragment 0 exampleStore ''s/api/node/n/m/key''"] h5
  have r5: "downloadMergeFragment_for (downloadMergeFragment 0 exampleStore ''s/api/node/n/m/key'')
       exampleStore ''s/api/node/n/m/key'' ''5'' [''5''] [leafB] [] =
     Some ([leafB], [''s/api/node/n/m/key/5.ngmesh''])"
    by (simp add: continueWith_def)
  from h7 r7 h5 r5 show ?thesis by (simp del: downloadMergeFragment_for.simps)
qed

text \<open>
  Claim C6. The leaf list a resolve call returns is the depth-first, left-to-right
  traversal of the merge graph as the server returns it: the concatenation, in the declared
  order of the child keys, of the leaves of each child's branch, each branch being
  traversed the same way. (Both sides are bounded by the same nesting depth, and neither
  returns when the graph is deeper.)
\<close>

theorem downloadMergeFragment_depth_first_order:
  "map_option fst (downloadMergeFragment depth srv keyBaseUrl keys masterKey log) =
     traverseDepthFirst depth srv keyBaseUrl keys masterKey"
proof (induction depth arbitrary: keys masterKey log)
  case 0
  show ?case by simp
next
  case (Suc depth)
  show ?case
  proof (cases keys)
    case NotIterable
    then show ?thesis by simp
  next
    case (Keys ks)
    have "map_option fst
            (downloadMergeFragment_for (downloadMergeFragment depth srv keyBaseUrl) srv keyBaseUrl masterKey ks [] log)
          = map_option (\<lambda>ls. [] @ ls)
              (concatLeaves (map (branchLeaves (traverseDepthFirst depth srv keyBaseUrl) srv keyBaseUrl masterKey) ks))"
      by (rule for_refines) (rule Suc.IH)
    then have "map_option Inr (map_option fst
            (downloadMergeFragment_for (downloadMergeFragment depth srv keyBaseUrl) srv keyBaseUrl masterKey ks [] log))
          = map_option Inr
              (concatLeaves (map (branchLeaves (traverseDepthFirst depth srv keyBaseUrl) srv keyBaseUrl masterKey) ks))"
      by (simp add: option.map_ident)
    then show ?thesis using Keys
      by (simp add: option.map_comp comp_def split_def)
  qed
qed

theorem downloadMergeFragment_depth_first_order_witness:
  "traverseDepthFirst 2 exampleStore ''s/api/node/n/m/key'' (Keys [''9'', ''7'', ''5'']) ''0'' =
     Some (Inr [leafA, leafB, leafA]) \<and>
   map_option fst (downloadMergeFragment 2 exampleStore ''s/api/node/n/m/key'' (Keys [''9'', ''7'', ''5'']) ''0'' []) =
     Some (Inr [leafA, leafB, leafA])"
proof -
  have "traverseDepthFirst 2 exampleStore ''s/api/node/n/m/key'' (Keys [''9'', ''7'', ''5'']) ''0'' =
     Some (Inr [leafA, leafB, leafA])"
    by (simp add: numeral_2_eq_2 exampleStore_def branchLeaves_def leafOrNothing_def)
  with downloadMergeFragment_depth_first_order [of 2 exampleStore "''s/api/node/n/m/key''"
      "Keys [''9'', ''7'', ''5'']" "''0''" "[]"]
  show ?thesis by simp
qed

section \<open>Failure classification of the transport\<close>

text \<open>
  Claim C1. A transport call whose attempt receives a failure response is continued
  according to the status code: on 401 or 403 the credential provider is asked to refresh
  and the same call is attempted again with the refreshed credential; on 504 the same
  call is attempted again with the credential unchanged and no refresh; on any other
  status the error is the outcome of the call and nothing further is attempted.
\<close>

theorem transport_failure_classification:
  "(status = 401 \<or> status = 403 \<longrightarrow>
      makeRequestWithCredentials provider httpCall gen (Inl (HttpError status) # rest) =
        afterEvents [Request (url httpCall) (attemptInit (provider gen) httpCall), RefreshCredentials]
          (makeRequestWithCredentials provider httpCall (Suc gen) rest)) \<and>
   (status = 504 \<longrightarrow>
      makeRequestWithCredentials provider httpCall gen (Inl (HttpError status) # rest) =
        afterEvents [Request (url httpCall) (attemptInit (provider gen) httpCall)]
          (makeRequestWithCredentials provider httpCall gen rest)) \<and>
   (status \<noteq> 401 \<and> status \<noteq> 403 \<and> status \<noteq> 504 \<longrightarrow>
      makeRequestWithCredentials provider httpCall gen (Inl (HttpError status) # rest) =
        Some (Inl (HttpError status), [Request (url httpCall) (attemptInit (provider gen) httpCall)]))"
  by (simp add: makeRequestWithCredentials_def fetchWithDVIDCredentials_def errorHandler_def
        attemptInit_def Let_def)

theorem transport_failure_classification_witness:
  "makeRequestWithCredentials exampleProvider (exampleCall ''https://d/k'') 0
       [Inl (HttpError 401), Inr ''body''] =
     Some (Inr ''body'',
       [Request ''https://d/k'' (attemptInit ''tok'' (exampleCall ''https://d/k'')),
        RefreshCredentials,
        Request ''https://d/k'' (attemptInit ''tok+'' (exampleCall ''https://d/k''))]) \<and>
   makeRequestWithCredentials exampleProvider (exampleCall ''https://d/k'') 0
       [Inl (HttpError 504), Inr ''body''] =
     Some (Inr ''body'',
       [Request ''https://d/k'' (attemptInit ''tok'' (exampleCall ''https://d/k'')),
        Request ''https://d/k'' (attemptInit ''tok'' (exampleCall ''https://d/k''))]) \<and>
   makeRequestWithCredentials exampleProvider (exampleCall ''https://d/k'') 0
       [Inl (HttpError 500), Inr ''body''] =
     Some (Inl (HttpError 500),
       [Request ''https://d/k'' (attemptInit ''tok'' (exampleCall ''https://d/k''))])"
proof -
  have ok: "makeRequestWithCredentials exampleProvider (exampleCall ''https://d/k'') gen [Inr ''body''] =
      Some (Inr ''body'', [Request ''https://d/k'' (attemptInit (exampleProvider gen) (exampleCall ''https://d/k''))])"
    for gen
    by (simp add: makeRequestWithCredentials_def fetchWithDVIDCredentials_def attemptInit_def
          exampleCall_def)
  have u: "url (exampleCall ''https://d/k'') = ''https://d/k''"
    by (simp add: exampleCall_def)
  have p0: "exampleProvider 0 = ''tok''" and p1: "exampleProvider (Suc 0) = ''tok+''"
    by (simp_all add: exampleProvider_def)
  from transport_failure_classification [of 401 exampleProvider "exampleCall ''https://d/k''" 0 "[Inr ''body'']"]
    transport_failure_classification [of 504 exampleProvider "exampleCall ''https://d/k''" 0 "[Inr ''body'']"]
    transport_failure_classification [of 500 exampleProvider "exampleCall ''https://d/k''" 0 "[Inr ''body'']"]
  show ?thesis
    by (simp add: ok u p0 p1 afterEvents_def)
qed

section \<open>The fragment assembly\<close>



text \<open>
  Claim C5, as stated: a primary path that ends with the cancellation outcome never makes
  the assembly switch to the fallback path. It does: on a store where every request ends
  with the cancellation outcome, the primary path of fragment 7 ends with that outcome
  after the request for the \<open>.merge\<close> document, and the assembly goes on to request
  the leaf \<open>7.ngmesh\<close>.
\<close>

theorem cancellation_never_falls_back_counterexample:
  "primaryPath 1 canceledStore decodeTriangleVertexPositionsAndIndicesM exampleParameters ''7'' =
     Some (Inl Canceled, [''s/api/node/n/m/key/7.merge'']) \<and>
   downloadFragment 1 canceledStore decodeTriangleVertexPositionsAndIndices
       decodeTriangleVertexPositionsAndIndicesM exampleParameters ''7'' =
     Some (Inl Canceled, [''s/api/node/n/m/key/7.merge'', ''s/api/node/n/m/key/7.ngmesh''])"
  by (simp add: downloadFragment_def fallbackPath_def primaryPath_def canceledStore_def
        keyBaseUrlOf_def exampleParameters_def)

text \<open>
  Claim C5, amended. The handler of the orchestrator does not tell cancellation from other
  failures: when the primary path ends with the cancellation outcome, the leaf named by
  the fragment id is requested as after any other failure, and the outcome of the assembly
  is the outcome of that fallback; it is the cancellation outcome when the fallback
  request is cancelled too.
\<close>

theorem cancellation_handled_like_failure:
  "primaryPath depth srv decodeTrianglesM parameters fragmentId = Some (Inl Canceled, log) \<Longrightarrow>
     downloadFragment depth srv decodeTriangles decodeTrianglesM parameters fragmentId =
       Some (fallbackPath srv decodeTriangles parameters fragmentId log) \<and>
     snd (fallbackPath srv decodeTriangles parameters fragmentId log) =
       log @ [keyBaseUrlOf parameters @ ''/'' @ fragmentId @ ''.ngmesh''] \<and>
     (requestArrayBuffer srv (keyBaseUrlOf parameters @ ''/'' @ fragmentId @ ''.ngmesh'') = Inl Canceled \<longrightarrow>
        downloadFragment depth srv decodeTriangles decodeTrianglesM parameters fragmentId =
          Some (Inl Canceled, log @ [keyBaseUrlOf parameters @ ''/'' @ fragmentId @ ''.ngmesh'']))"
  by (simp add: downloadFragment_def fallbackPath_def Let_def split: sum.splits)

theorem cancellation_handled_like_failure_witness:
  "primaryPath 1 canceledStore decodeTriangleVertexPositionsAndIndicesM exampleParameters ''7'' =
     Some (Inl Canceled, [''s/api/node/n/m/key/7.merge'']) \<and>
   requestArrayBuffer canceledStore ''s/api/node/n/m/key/7.ngmesh'' = Inl Canceled \<and>
   snd (fallbackPath canceledStore decodeTriangleVertexPositionsAndIndices exampleParameters ''7''
          [''s/api/node/n/m/key/7.merge'']) =
     [''s/api/node/n/m/key/7.merge'', ''s/api/node/n/m/key/7.ngmesh'']"
proof -
  have kb: "keyBaseUrlOf exampleParameters = ''s/api/node/n/m/key''"
    by (simp add: keyBaseUrlOf_def exampleParameters_def)
  have p: "primaryPath 1 canceledStore decodeTriangleVertexPositionsAndIndicesM exampleParameters ''7'' =
     Some (Inl Canceled, [''s/api/node/n/m/key/7.merge''])"
    by (simp add: primaryPath_def canceledStore_def kb)
  have c: "requestArrayBuffer canceledStore ''s/api/node/n/m/key/7.ngmesh'' = Inl Canceled"
    by (simp add: canceledStore_def)
  from cancellation_handled_like_failure [OF p, of decodeTriangleVertexPositionsAndIndices] p c
  show ?thesis by (simp add: kb)
qed

section \<open>Decoding\<close>

text \<open>
  Claim C9. Decoding a leaf reads the vertex count as the 4-byte little-endian unsigned
  integer at byte offset 0 and hands the buffer to the position and index parser with
  little-endian byte order, the vertex data starting at byte offset 4, and the count as
  read; decoding several leaves hands over the list of their counts, in order. A buffer
  shorter than its header makes the read throw a \<open>RangeError\<close>.
\<close>

theorem decodeFragmentChunk_reads_header:
  "(4 \<le> length response \<longrightarrow>
      decodeFragmentChunk parser response =
        parser response LITTLE 4
          (unat (response ! 0) + 256 * unat (response ! 1) + 65536 * unat (response ! 2)
             + 16777216 * unat (response ! 3))) \<and>
   (length response < 4 \<longrightarrow> decodeFragmentChunk parser response = Inl RangeError) \<and>
   ((\<forall>r\<in>set responses. 4 \<le> length r) \<longrightarrow>
      decodeFragmentChunkM parserM responses =
        parserM responses LITTLE 4
          (map (\<lambda>r. unat (r ! 0) + 256 * unat (r ! 1) + 65536 * unat (r ! 2) + 16777216 * unat (r ! 3))
             responses))"
proof (intro conjI impI)
  assume "4 \<le> length response"
  then show "decodeFragmentChunk parser response =
        parser response LITTLE 4
          (unat (response ! 0) + 256 * unat (response ! 1) + 65536 * unat (response ! 2)
             + 16777216 * unat (response ! 3))"
    by (simp add: decodeFragmentChunk_def getUint32_header)
next
  assume "length response < 4"
  then show "decodeFragmentChunk parser response = Inl RangeError"
    by (simp add: decodeFragmentChunk_def getUint32_short)
next
  assume all: "\<forall>r\<in>set responses. 4 \<le> length r"
  have eq: "map declaredCount responses =
        map (\<lambda>r. unat (r ! 0) + 256 * unat (r ! 1) + 65536 * unat (r ! 2) + 16777216 * unat (r ! 3)) responses"
  proof (rule map_cong [OF refl])
    fix r assume "r \<in> set responses"
    with all have "4 \<le> length r" by simp
    from getUint32_header [OF this] getUint32_declaredCount [OF this]
    show "declaredCount r = unat (r ! 0) + 256 * unat (r ! 1) + 65536 * unat (r ! 2) + 16777216 * unat (r ! 3)"
      by simp
  qed
  have "decodeFragmentChunkM parserM responses = parserM responses LITTLE 4 (map declaredCount responses)"
    using all by (simp add: decodeFragmentChunkM_def decodeFragmentChunkM_for_counts)
  then show "decodeFragmentChunkM parserM responses =
        parserM responses LITTLE 4
          (map (\<lambda>r. unat (r ! 0) + 256 * unat (r ! 1) + 65536 * unat (r ! 2) + 16777216 * unat (r ! 3))
             responses)"
    by (simp only: eq)
qed

theorem decodeFragmentChunk_reads_header_witness:
  "4 \<le> length leafA \<and> 4 \<le> length leafB \<and>
   decodeFragmentChunk decodeTriangleVertexPositionsAndIndices leafA =
     decodeTriangleVertexPositionsAndIndices leafA LITTLE 4 3 \<and>
   decodeFragmentChunkM decodeTriangleVertexPositionsAndIndicesM [leafA, leafB] =
     decodeTriangleVertexPositionsAndIndicesM [leafA, leafB] LITTLE 4 [3, 2] \<and>
   length [1, 2 :: 8 word] < 4 \<and>
   decodeFragmentChunk decodeTriangleVertexPositionsAndIndices [1, 2] = Inl RangeError"
proof -
  have a: "4 \<le> length leafA" and b: "4 \<le> length leafB"
    by (simp_all add: leafA_def leafB_def)
  have ha: "unat (leafA ! 0) + 256 * unat (leafA ! 1) + 65536 * unat (leafA ! 2) + 16777216 * unat (leafA ! 3) = 3"
    by (simp add: leafA_def)
  have hb: "unat (leafB ! 0) + 256 * unat (leafB ! 1) + 65536 * unat (leafB ! 2) + 16777216 * unat (leafB ! 3) = 2"
    by (simp add: leafB_def)
  from decodeFragmentChunk_reads_header [of leafA decodeTriangleVertexPositionsAndIndices "[leafA, leafB]"
      decodeTriangleVertexPositionsAndIndicesM]
    decodeFragmentChunk_reads_header [of "[1, 2]" decodeTriangleVertexPositionsAndIndices "[]"
      decodeTriangleVertexPositionsAndIndicesM]
    a b ha hb
  show ?thesis by simp
qed




section \<open>Credential application\<close>

lemma applyCredentials_bearer:
  "startsWith input ''https'' \<Longrightarrow> token \<noteq> [] \<Longrightarrow>
   applyCredentials input token init =
     init\<lparr>headers := Some (AList.update ''Authorization'' (''Bearer '' @ token) (spreadHeaders (headers init)))\<rparr>"
  by (simp add: applyCredentials_def)

lemma applyCredentials_ambient:
  "startsWith input ''https'' \<Longrightarrow> applyCredentials input [] init = init\<lparr>credentials := Some ''include''\<rparr>"
  by (simp add: applyCredentials_def)

text \<open>
  Claim C8. No attempt of a transport call both carries a bearer header and enables
  ambient cookie credentials. To a secure URL, a non-empty credential travels as the header
  \<open>Authorization: Bearer <credential>\<close> and ambient cookie credentials stay off; an empty
  credential switches ambient cookie credentials on and no bearer header is carried.
\<close>

theorem attempt_credential_modes_exclusive:
  "(bearerHeader (attemptInit token httpCall) = None \<or> \<not> ambientCredentials (attemptInit token httpCall)) \<and>
   (startsWith (url httpCall) ''https'' \<and> token \<noteq> [] \<longrightarrow>
      bearerHeader (attemptInit token httpCall) = Some (''Bearer '' @ token) \<and>
      \<not> ambientCredentials (attemptInit token httpCall)) \<and>
   (startsWith (url httpCall) ''https'' \<and> token = [] \<longrightarrow>
      ambientCredentials (attemptInit token httpCall) \<and>
      bearerHeader (attemptInit token httpCall) = None)"
  by (auto simp add: attemptInit_def applyCredentials_def requestInit_def bearerHeader_def
      ambientCredentials_def spreadHeaders_def Let_def)

theorem attempt_credential_modes_exclusive_witness:
  "startsWith (url (exampleCall ''https://dvid.example/api'')) ''https'' \<and>
   bearerHeader (attemptInit ''tok'' (exampleCall ''https://dvid.example/api'')) = Some ''Bearer tok'' \<and>
   \<not> ambientCredentials (attemptInit ''tok'' (exampleCall ''https://dvid.example/api'')) \<and>
   ambientCredentials (attemptInit [] (exampleCall ''https://dvid.example/api'')) \<and>
   bearerHeader (attemptInit [] (exampleCall ''https://dvid.example/api'')) = None"
proof -
  have h: "startsWith (url (exampleCall ''https://dvid.example/api'')) ''https''"
    by (simp add: startsWith_def exampleCall_def)
  from attempt_credential_modes_exclusive [of "''tok''" "exampleCall ''https://dvid.example/api''"]
    attempt_credential_modes_exclusive [of "[]" "exampleCall ''https://dvid.example/api''"] h
  show ?thesis by simp
qed

text \<open>
  Claim C10. For a URL that does not start with \<open>https\<close> the credential application
  returns the request options unchanged, whatever credential is held: no Authorization
  header is added and ambient cookie credentials are not switched on.
\<close>

theorem applyCredentials_insecure_unchanged:
  "\<not> startsWith input ''https'' \<Longrightarrow> applyCredentials input token init = init"
  by (simp add: applyCredentials_def)

theorem applyCredentials_insecure_unchanged_witness:
  "\<not> startsWith ''http://dvid.example/api'' ''https'' \<and>
   applyCredentials ''http://dvid.example/api'' ''tok'' (requestInit (exampleCall ''http://dvid.example/api''))
     = requestInit (exampleCall ''http://dvid.example/api'')"
proof -
  have h: "\<not> startsWith ''http://dvid.example/api'' ''https''"
    by (simp add: startsWith_def)
  from applyCredentials_insecure_unchanged [OF h] h show ?thesis by simp
qed

end
